theory Spec2Isabelle
  imports Complex_Main
begin

section \<open>Strings and dictionaries\<close>

text \<open>
  A Python \<open>str\<close> is modelled as a \<open>string\<close>: a list of characters, each character being
  one code point in the range 0..255. Every string the trainer builds from its own tables
  is ASCII. A Python \<open>dict\<close> is modelled as the list of its items in insertion order (the
  order in which Python iterates it); the keys of each table are pairwise distinct, so
  \<open>map_of\<close> is the lookup.
\<close>

definition dict_get :: "('k \<times> 'v) list \<Rightarrow> 'k \<Rightarrow> 'v \<Rightarrow> 'v" where
  "dict_get d k dflt = (case map_of d k of None \<Rightarrow> dflt | Some v \<Rightarrow> v)"

text \<open>\<open>sub in s\<close> on strings, and the number of places at which \<open>sub\<close> occurs in \<open>s\<close>.\<close>

fun starts_with :: "string \<Rightarrow> string \<Rightarrow> bool" where
  "starts_with s [] = True"
| "starts_with [] (p # ps) = False"
| "starts_with (c # s) (p # ps) = (c = p \<and> starts_with s ps)"

fun contains :: "string \<Rightarrow> string \<Rightarrow> bool" where
  "contains [] sub = starts_with [] sub"
| "contains (c # s) sub = (starts_with (c # s) sub \<or> contains s sub)"

fun occurrences :: "string \<Rightarrow> string \<Rightarrow> nat" where
  "occurrences [] sub = (if starts_with [] sub then 1 else 0)"
| "occurrences (c # s) sub = (if starts_with (c # s) sub then 1 else 0) + occurrences s sub"

fun ends_with :: "string \<Rightarrow> string \<Rightarrow> bool" where
  "ends_with s suffix = starts_with (rev s) (rev suffix)"

section \<open>The trainer and its tables (train_3d_ai.py)\<close>

record example =
  prompt :: string
  code :: string
  category :: string

record trainer =
  training_data :: "example list"
  geometries :: "(string \<times> string) list"
  materials :: "(string \<times> string) list"
  colors :: "(string \<times> string) list"

text \<open>\<open>ThreeJSTrainer.__init__\<close>\<close>

definition ThreeJSTrainer :: trainer where
  "ThreeJSTrainer = \<lparr>
     training_data = [],
     geometries = [
       (''sphere'', ''SphereGeometry''),
       (''cube'', ''BoxGeometry''),
       (''cylinder'', ''CylinderGeometry''),
       (''cone'', ''ConeGeometry''),
       (''torus'', ''TorusGeometry''),
       (''plane'', ''PlaneGeometry''),
       (''ring'', ''RingGeometry''),
       (''dodecahedron'', ''DodecahedronGeometry''),
       (''icosahedron'', ''IcosahedronGeometry''),
       (''octahedron'', ''OctahedronGeometry''),
       (''tetrahedron'', ''TetrahedronGeometry'')],
     materials = [
       (''standard'', ''MeshStandardMaterial''),
       (''physical'', ''MeshPhysicalMaterial''),
       (''basic'', ''MeshBasicMaterial''),
       (''lambert'', ''MeshLambertMaterial''),
       (''phong'', ''MeshPhongMaterial'')],
     colors = [
       (''red'', ''0xff0000''),
       (''green'', ''0x00ff00''),
       (''blue'', ''0x0000ff''),
       (''yellow'', ''0xffff00''),
       (''purple'', ''0x800080''),
       (''orange'', ''0xffa500''),
       (''pink'', ''0xffc0cb''),
       (''cyan'', ''0x00ffff''),
       (''gold'', ''0xffd700''),
       (''silver'', ''0xc0c0c0'')] \<rparr>"

subsection \<open>generate_code_template\<close>

text \<open>The local table \<open>params\<close> of \<open>generate_code_template\<close> and its lookup (lines 96-110).\<close>

definition template_params :: "(string \<times> string) list" where
  "template_params = [
     (''SphereGeometry'', ''1.5, 32, 32''),
     (''BoxGeometry'', ''2, 2, 2''),
     (''CylinderGeometry'', ''1, 1, 3, 32''),
     (''ConeGeometry'', ''1.5, 3, 8''),
     (''TorusGeometry'', ''1.5, 0.5, 16, 100''),
     (''PlaneGeometry'', ''3, 3''),
     (''RingGeometry'', ''0.5, 1.5, 32''),
     (''DodecahedronGeometry'', ''1.5''),
     (''IcosahedronGeometry'', ''1.5''),
     (''OctahedronGeometry'', ''1.5''),
     (''TetrahedronGeometry'', ''1.5'')]"

definition template_param :: "string \<Rightarrow> string" where
  "template_param geometry = dict_get template_params geometry ''1, 1, 1''"

text \<open>The local table \<open>animations\<close> and its lookup (lines 113-121).\<close>

definition animations :: "(string \<times> string) list" where
  "animations = [
     (''sphere'', ''object.rotation.y += 0.02; object.position.y = Math.sin(Date.now() * 0.001) * 0.3;''),
     (''cube'', ''object.rotation.x += 0.01; object.rotation.y += 0.01; object.rotation.z += 0.005;''),
     (''cylinder'', ''object.rotation.y += 0.02; object.position.y = Math.sin(Date.now() * 0.001) * 0.2;''),
     (''cone'', ''object.rotation.y += 0.015; object.position.y = Math.sin(Date.now() * 0.0015) * 0.4;''),
     (''torus'', ''object.rotation.x += 0.01; object.rotation.y += 0.02;'')]"

definition template_animation :: "string \<Rightarrow> string" where
  "template_animation shape =
     dict_get animations shape ''object.rotation.x += 0.01; object.rotation.y += 0.01;''"

text \<open>
  The f-string returned at lines 123-134. The lines of the source that end in a blank
  keep it; \<open>{{\<close> and \<open>}}\<close> are the f-string's escapes for one brace. The parameter
  \<open>color_name\<close> is not used by the source.
\<close>

definition generate_code_template :: "string \<Rightarrow> string \<Rightarrow> string \<Rightarrow> string \<Rightarrow> string" where
  "generate_code_template shape geometry color color_name =
     (let param = template_param geometry;
          animation = template_animation shape
      in ''const geometry = new THREE.'' @ geometry @ ''('' @ param @ '');\<newline>'' @
         ''const material = new THREE.MeshStandardMaterial({ \<newline>'' @
         ''    color: '' @ color @ '', \<newline>'' @
         ''    metalness: 0.3, \<newline>'' @
         ''    roughness: 0.4 \<newline>'' @
         ''});\<newline>'' @
         ''const object = new THREE.Mesh(geometry, material);\<newline>'' @
         ''object.castShadow = true;\<newline>'' @
         ''object.receiveShadow = true;\<newline>'' @
         ''object.userData.animate = () => { \<newline>'' @
         ''    '' @ animation @ ''\<newline>'' @
         ''};'')"

subsection \<open>generate_advanced_code\<close>

text \<open>The local table \<open>params\<close> of \<open>generate_advanced_code\<close> and its lookup (lines 139-148).\<close>

definition advanced_params :: "(string \<times> string) list" where
  "advanced_params = [
     (''SphereGeometry'', ''1.5, 32, 32''),
     (''BoxGeometry'', ''2, 2, 2''),
     (''CylinderGeometry'', ''1, 1, 3, 32''),
     (''ConeGeometry'', ''1.5, 3, 8''),
     (''TorusGeometry'', ''1.5, 0.5, 16, 100''),
     (''OctahedronGeometry'', ''1.5'')]"

definition advanced_param :: "string \<Rightarrow> string" where
  "advanced_param geometry = dict_get advanced_params geometry ''1, 1, 1''"

text \<open>
  The chain of \<open>if effect == ... elif ...\<close> at lines 151-180: the pair
  \<open>(material, animation)\<close> it assigns.
\<close>

definition effect_strategy :: "string \<Rightarrow> string \<Rightarrow> string \<times> string" where
  "effect_strategy color effect =
     (if effect = ''metallic'' then
        (''new THREE.MeshStandardMaterial({ color: '' @ color @ '', metalness: 0.9, roughness: 0.1 })'',
         ''object.rotation.y += 0.02; object.material.metalness = 0.9 + Math.sin(Date.now() * 0.002) * 0.1;'')
      else if effect = ''emissive'' then
        (''new THREE.MeshStandardMaterial({ color: '' @ color @ '', emissive: '' @ color @ '', emissiveIntensity: 0.3 })'',
         ''object.rotation.x += 0.01; object.rotation.y += 0.01; object.material.emissiveIntensity = 0.3 + Math.sin(Date.now() * 0.003) * 0.2;'')
      else if effect = ''floating'' then
        (''new THREE.MeshStandardMaterial({ color: '' @ color @ '', metalness: 0.2, roughness: 0.8 })'',
         ''object.rotation.y += 0.01; object.position.y = Math.sin(Date.now() * 0.001) * 1.5;'')
      else if effect = ''pulsing'' then
        (''new THREE.MeshStandardMaterial({ color: '' @ color @ '', metalness: 0.5, roughness: 0.3 })'',
         ''object.rotation.x += 0.005; object.rotation.y += 0.01; object.scale.setScalar(1 + Math.sin(Date.now() * 0.003) * 0.3);'')
      else if effect = ''rainbow'' then
        (''new THREE.MeshStandardMaterial({ color: '' @ color @ '', metalness: 0.3, roughness: 0.4 })'',
         ''object.rotation.y += 0.02; const time = Date.now() * 0.001; object.material.color.setHSL((time * 0.2) % 1, 0.8, 0.5);'')
      else if effect = ''glass'' then
        (''new THREE.MeshPhysicalMaterial({ color: '' @ color @ '', transmission: 0.9, opacity: 0.1, transparent: true, roughness: 0.0, metalness: 0.0 })'',
         ''object.rotation.x += 0.005; object.rotation.y += 0.01; object.position.y = Math.sin(Date.now() * 0.001) * 0.2;'')
      else if effect = ''wood'' then
        (''new THREE.MeshStandardMaterial({ color: '' @ color @ '', metalness: 0.0, roughness: 0.9 })'',
         ''object.rotation.y += 0.01;'')
      else if effect = ''crystal'' then
        (''new THREE.MeshPhysicalMaterial({ color: '' @ color @ '', transmission: 0.7, opacity: 0.3, transparent: true, roughness: 0.0, metalness: 0.1, clearcoat: 1.0 })'',
         ''object.rotation.x += 0.01; object.rotation.y += 0.015; object.rotation.z += 0.005;'')
      else if effect = ''plasma'' then
        (''new THREE.MeshStandardMaterial({ color: '' @ color @ '', emissive: '' @ color @ '', emissiveIntensity: 0.5 })'',
         ''object.rotation.y += 0.03; const time = Date.now() * 0.001; object.material.emissiveIntensity = 0.5 + Math.sin(time * 2) * 0.3; object.material.color.setHSL((time * 0.5) % 1, 1, 0.5);'')
      else
        (''new THREE.MeshStandardMaterial({ color: '' @ color @ '', metalness: 0.3, roughness: 0.4 })'',
         ''object.rotation.x += 0.01; object.rotation.y += 0.01;''))"

text \<open>The f-string returned at lines 182-189. The parameter \<open>shape\<close> is not used by the source.\<close>

definition generate_advanced_code :: "string \<Rightarrow> string \<Rightarrow> string \<Rightarrow> string \<Rightarrow> string" where
  "generate_advanced_code shape geometry color effect =
     (let param = advanced_param geometry;
          (material, animation) = effect_strategy color effect
      in ''const geometry = new THREE.'' @ geometry @ ''('' @ param @ '');\<newline>'' @
         ''const material = '' @ material @ '';\<newline>'' @
         ''const object = new THREE.Mesh(geometry, material);\<newline>'' @
         ''object.castShadow = true;\<newline>'' @
         ''object.receiveShadow = true;\<newline>'' @
         ''object.userData.animate = () => { \<newline>'' @
         ''    '' @ animation @ ''\<newline>'' @
         ''};'')"

subsection \<open>validate_generated_code\<close>

text \<open>
  The six patterns use only literal characters (\<open>\.\<close> is a literal dot), the class
  \<open>\s\<close> and the postfix operators \<open>*\<close> and \<open>+\<close> on \<open>\s\<close>. A pattern is therefore a list
  of atoms, each with its repetition. For a \<open>str\<close> pattern \<open>\s\<close> is Unicode whitespace;
  among the code points 0..255 these are 9-13, 28-32, 133 and 160.
\<close>

datatype atom = Lit char | Whitespace

datatype quant = ExactlyOne | ZeroOrMore | OneOrMore

type_synonym regex = "(atom \<times> quant) list"

definition is_space :: "char \<Rightarrow> bool" where
  "is_space c = (c \<in> set [CHR 0x09, CHR 0x0A, CHR 0x0B, CHR 0x0C, CHR 0x0D,
     CHR 0x1C, CHR 0x1D, CHR 0x1E, CHR 0x1F, CHR 0x20, CHR 0x85, CHR 0xA0])"

fun atom_matches :: "atom \<Rightarrow> char \<Rightarrow> bool" where
  "atom_matches (Lit a) c = (a = c)"
| "atom_matches Whitespace c = is_space c"

text \<open>\<open>match_here r s\<close>: the pattern \<open>r\<close> matches some prefix of \<open>s\<close>.\<close>

fun match_here :: "regex \<Rightarrow> string \<Rightarrow> bool" where
  "match_here [] s = True"
| "match_here ((a, ExactlyOne) # r) [] = False"
| "match_here ((a, ExactlyOne) # r) (c # s) = (atom_matches a c \<and> match_here r s)"
| "match_here ((a, ZeroOrMore) # r) [] = match_here r []"
| "match_here ((a, ZeroOrMore) # r) (c # s) =
     (match_here r (c # s) \<or> (atom_matches a c \<and> match_here ((a, ZeroOrMore) # r) s))"
| "match_here ((a, OneOrMore) # r) [] = False"
| "match_here ((a, OneOrMore) # r) (c # s) =
     (atom_matches a c \<and> match_here ((a, ZeroOrMore) # r) s)"

text \<open>
  \<open>re.search(pattern, s)\<close> as a truth value: the pattern matches at some position of \<open>s\<close>.
\<close>

fun re_search :: "regex \<Rightarrow> string \<Rightarrow> bool" where
  "re_search r [] = match_here r []"
| "re_search r (c # s) = (match_here r (c # s) \<or> re_search r s)"

definition lit :: "string \<Rightarrow> regex" where
  "lit s = map (\<lambda>c. (Lit c, ExactlyOne)) s"

definition ws_plus :: regex where
  "ws_plus = [(Whitespace, OneOrMore)]"

definition ws_star :: regex where
  "ws_star = [(Whitespace, ZeroOrMore)]"

text \<open>
  The list \<open>required_patterns\<close> of lines 213-220:
  \<^verbatim>\<open>const\s+geometry\s*=\s*new\s+THREE\.\<close>,
  \<^verbatim>\<open>const\s+material\s*=\s*new\s+THREE\.\<close>,
  \<^verbatim>\<open>const\s+object\s*=\s*new\s+THREE\.Mesh\<close>,
  \<^verbatim>\<open>object\.castShadow\s*=\s*true\<close>,
  \<^verbatim>\<open>object\.receiveShadow\s*=\s*true\<close>,
  \<^verbatim>\<open>object\.userData\.animate\s*=\<close>.
\<close>

definition geometry_pattern :: regex where
  "geometry_pattern = lit ''const'' @ ws_plus @ lit ''geometry'' @ ws_star @ lit ''='' @ ws_star @
     lit ''new'' @ ws_plus @ lit ''THREE.''"

definition material_pattern :: regex where
  "material_pattern = lit ''const'' @ ws_plus @ lit ''material'' @ ws_star @ lit ''='' @ ws_star @
     lit ''new'' @ ws_plus @ lit ''THREE.''"

definition mesh_pattern :: regex where
  "mesh_pattern = lit ''const'' @ ws_plus @ lit ''object'' @ ws_star @ lit ''='' @ ws_star @
     lit ''new'' @ ws_plus @ lit ''THREE.Mesh''"

definition cast_shadow_pattern :: regex where
  "cast_shadow_pattern = lit ''object.castShadow'' @ ws_star @ lit ''='' @ ws_star @ lit ''true''"

definition receive_shadow_pattern :: regex where
  "receive_shadow_pattern = lit ''object.receiveShadow'' @ ws_star @ lit ''='' @ ws_star @ lit ''true''"

definition animate_pattern :: regex where
  "animate_pattern = lit ''object.userData.animate'' @ ws_star @ lit ''=''"

definition required_patterns :: "regex list" where
  "required_patterns = [geometry_pattern, material_pattern, mesh_pattern,
     cast_shadow_pattern, receive_shadow_pattern, animate_pattern]"

text \<open>The loop of lines 222-225: \<open>return False\<close> at the first pattern with no match.\<close>

fun validate_loop :: "regex list \<Rightarrow> string \<Rightarrow> bool" where
  "validate_loop [] code' = True"
| "validate_loop (pattern # rest) code' =
     (if \<not> re_search pattern code' then False else validate_loop rest code')"

definition validate_generated_code :: "string \<Rightarrow> bool" where
  "validate_generated_code code' = validate_loop required_patterns code'"

subsection \<open>generate_training_examples\<close>

text \<open>
  The two nested \<open>for\<close> loops of lines 57-65 over \<open>self.geometries.items()\<close> and
  \<open>self.colors.items()\<close>; \<open>examples\<close> is the list they append to.
\<close>

fun colors_loop :: "string \<Rightarrow> string \<Rightarrow> (string \<times> string) list \<Rightarrow> example list \<Rightarrow> example list" where
  "colors_loop shape geometry [] examples = examples"
| "colors_loop shape geometry ((color_name, color_hex) # rest) examples =
     colors_loop shape geometry rest
       (examples @ [\<lparr> prompt = ''Create a '' @ color_name @ '' '' @ shape,
                      code = generate_code_template shape geometry color_hex color_name,
                      category = ''basic_shapes'' \<rparr>])"

fun shapes_loop :: "(string \<times> string) list \<Rightarrow> (string \<times> string) list \<Rightarrow> example list \<Rightarrow> example list" where
  "shapes_loop [] color_items examples = examples"
| "shapes_loop ((shape, geometry) # rest) color_items examples =
     shapes_loop rest color_items (colors_loop shape geometry color_items examples)"

text \<open>The list \<open>complex_objects\<close> of lines 68-79.\<close>

definition complex_objects :: "(string \<times> string \<times> string \<times> string) list" where
  "complex_objects = [
     (''spinning golden sphere'', ''sphere'', ''0xffd700'', ''metallic''),
     (''glowing blue cube'', ''cube'', ''0x0000ff'', ''emissive''),
     (''floating red cylinder'', ''cylinder'', ''0xff0000'', ''floating''),
     (''pulsing green torus'', ''torus'', ''0x00ff00'', ''pulsing''),
     (''rotating rainbow cone'', ''cone'', ''0xff0000'', ''rainbow''),
     (''transparent glass sphere'', ''sphere'', ''0x88ccff'', ''glass''),
     (''metallic silver cube'', ''cube'', ''0xc0c0c0'', ''metallic''),
     (''wooden brown cylinder'', ''cylinder'', ''0x8b4513'', ''wood''),
     (''crystal clear diamond'', ''octahedron'', ''0xffffff'', ''crystal''),
     (''glowing plasma ball'', ''sphere'', ''0xff00ff'', ''plasma'')]"

text \<open>The loop of lines 81-88.\<close>

fun complex_loop :: "(string \<times> string) list \<Rightarrow> (string \<times> string \<times> string \<times> string) list \<Rightarrow>
    example list \<Rightarrow> example list" where
  "complex_loop geometry_items [] examples = examples"
| "complex_loop geometry_items ((prompt', shape, color, effect) # rest) examples =
     complex_loop geometry_items rest
       (examples @ [\<lparr> prompt = prompt',
                      code = generate_advanced_code shape (dict_get geometry_items shape ''BoxGeometry'') color effect,
                      category = ''advanced_objects'' \<rparr>])"

definition generate_training_examples :: "trainer \<Rightarrow> example list" where
  "generate_training_examples self =
     complex_loop (geometries self) complex_objects
       (shapes_loop (geometries self) (colors self) [])"

subsection \<open>main: the fine-tuning records\<close>

record message =
  role :: string
  content :: string

record fine_tune_record =
  messages :: "message list"

text \<open>
  \<open>save_training_data\<close> returns the examples it generated (it also writes them to a
  file, which is outside this model).
\<close>

definition save_training_data :: "trainer \<Rightarrow> example list" where
  "save_training_data self = generate_training_examples self"

text \<open>The loop of lines 246-263 of \<open>main\<close>; \<open>fine_tune_data\<close> is the list it appends to.\<close>

fun fine_tune_loop :: "example list \<Rightarrow> fine_tune_record list \<Rightarrow> fine_tune_record list" where
  "fine_tune_loop [] fine_tune_data = fine_tune_data"
| "fine_tune_loop (example # rest) fine_tune_data =
     fine_tune_loop rest
       (fine_tune_data @ [\<lparr> messages = [
          \<lparr> role = ''system'',
            content = ''You are an expert Three.js developer. Generate only clean JavaScript code without any markdown formatting, comments, or explanations.'' \<rparr>,
          \<lparr> role = ''user'',
            content = ''Create Three.js code for: '' @ prompt example \<rparr>,
          \<lparr> role = ''assistant'',
            content = code example \<rparr>] \<rparr>])"

text \<open>The values of \<open>training_data\<close> and \<open>fine_tune_data\<close> in \<open>main\<close>.\<close>

definition main_training_data :: "example list" where
  "main_training_data = save_training_data ThreeJSTrainer"

definition main_fine_tune_data :: "fine_tune_record list" where
  "main_fine_tune_data = fine_tune_loop main_training_data []"

text \<open>The content of the messages of a record whose role is \<open>assistant\<close>.\<close>

definition assistant_content :: "fine_tune_record \<Rightarrow> string list" where
  "assistant_content r = map content (filter (\<lambda>m. role m = ''assistant'') (messages r))"

section \<open>The request handler (server.py)\<close>

text \<open>
  A value that \<open>json.loads\<close> returns. A finite float is modelled by the rational number
  it denotes; \<open>json.loads\<close> also reads \<open>NaN\<close>, \<open>Infinity\<close> and \<open>-Infinity\<close>. An
  object is the list of the items of the resulting \<open>dict\<close>.
\<close>

datatype json =
    JNull
  | JBool bool
  | JInt int
  | JFloat rat
  | JNaN
  | JInfinity
  | JNegInfinity
  | JString string
  | JArray "json list"
  | JObject "(string \<times> json) list"

text \<open>Python's truth value of such a value, as \<open>not prompt\<close> tests it.\<close>

fun truthy :: "json \<Rightarrow> bool" where
  "truthy JNull = False"
| "truthy (JBool b) = b"
| "truthy (JInt i) = (i \<noteq> 0)"
| "truthy (JFloat x) = (x \<noteq> 0)"
| "truthy JNaN = True"
| "truthy JInfinity = True"
| "truthy JNegInfinity = True"
| "truthy (JString s) = (s \<noteq> [])"
| "truthy (JArray xs) = (xs \<noteq> [])"
| "truthy (JObject items) = (items \<noteq> [])"

text \<open>\<open>type(v).__name__\<close> of such a value.\<close>

fun type_name :: "json \<Rightarrow> string" where
  "type_name JNull = ''NoneType''"
| "type_name (JBool b) = ''bool''"
| "type_name (JInt i) = ''int''"
| "type_name (JFloat x) = ''float''"
| "type_name JNaN = ''float''"
| "type_name JInfinity = ''float''"
| "type_name JNegInfinity = ''float''"
| "type_name (JString s) = ''str''"
| "type_name (JArray xs) = ''list''"
| "type_name (JObject items) = ''dict''"

text \<open>An exception, with the text \<open>str(e)\<close> that the handler reports.\<close>

datatype exn = Exception string

fun str :: "exn \<Rightarrow> string" where
  "str (Exception msg) = msg"

text \<open>
  The \<open>AttributeError\<close> that the lookup of \<open>get\<close> raises on a value that is not a
  \<open>dict\<close>: its text is \<open>'list' object has no attribute 'get'\<close> for a list, and likewise
  with the name of the type of any other value. \<open>CHR 0x27\<close> is the apostrophe.
\<close>

definition no_attribute_get :: "json \<Rightarrow> exn" where
  "no_attribute_get v =
     Exception ([CHR 0x27] @ type_name v @ [CHR 0x27] @ '' object has no attribute '' @
                [CHR 0x27] @ ''get'' @ [CHR 0x27])"

text \<open>What the handler does to the connection and to the model, in order.\<close>

datatype event =
    Send_error nat string
  | Generate_content json
  | Send_response nat
  | Send_header string string
  | End_headers
  | Write_json json

text \<open>
  The object that \<open>generate_content\<close> returns: reading its property \<open>text\<close> either
  raises or yields the generated text.
\<close>

datatype response = Response (response_text: "exn + string")

text \<open>
  \<open>self.model\<close> is \<open>None\<close> when \<open>GEMINI_API_KEY\<close> is not set. Otherwise it is the
  collaborator: given the prompt, \<open>self.model.generate_content(self.create_enhanced_prompt(prompt))\<close>
  either raises or returns a response.
\<close>

record handler =
  model :: "(json \<Rightarrow> exn + response) option"

text \<open>
  \<open>handle_generate_request\<close>. Its argument \<open>request_body\<close> is the outcome of lines 48-50
  (reading \<open>Content-Length\<close> bytes, decoding them and \<open>json.loads\<close>): an exception or
  the parsed value. \<open>request_data.get\<close> exists only on a \<open>dict\<close>; on any other value the
  attribute lookup raises. \<open>response.text\<close> is read at line 73, after the status line and
  the headers of the answer 200 have been sent. Every exception reaches the \<open>except\<close>
  clause of line 79. Writing to the connection is taken to succeed, and what the handler
  prints is left out.
\<close>

definition generation_failed :: "exn \<Rightarrow> event list" where
  "generation_failed e = [Send_error 500 (''Generation failed: '' @ str e)]"

definition handle_generate_request :: "handler \<Rightarrow> exn + json \<Rightarrow> event list" where
  "handle_generate_request self request_body =
     (case request_body of
        Inl e \<Rightarrow> generation_failed e
      | Inr request_data \<Rightarrow>
          (case request_data of
             JObject items \<Rightarrow>
               (let prompt' = dict_get items ''prompt'' (JString []) in
                if \<not> truthy prompt' then [Send_error 400 ''Prompt is required'']
                else
                  (case model self of
                     None \<Rightarrow> [Send_error 500 ''Gemini API not configured'']
                   | Some generate_content \<Rightarrow>
                       Generate_content prompt' #
                       (case generate_content prompt' of
                          Inl e \<Rightarrow> generation_failed e
                        | Inr response \<Rightarrow>
                            [Send_response 200,
                             Send_header ''Content-Type'' ''application/json'',
                             Send_header ''Access-Control-Allow-Origin'' ''*'',
                             End_headers] @
                            (case response_text response of
                               Inl e \<Rightarrow> generation_failed e
                             | Inr code' \<Rightarrow>
                                 [Write_json (JObject [(''success'', JBool True),
                                                       (''code'', JString code'),
                                                       (''prompt'', prompt')])]))))
           | _ \<Rightarrow> generation_failed (no_attribute_get request_data)))"

section \<open>Properties\<close>

subsection \<open>Matching and concatenation\<close>

lemma match_here_append: "match_here r s \<Longrightarrow> match_here r (s @ t)"
proof (induction r s rule: match_here.induct)
  case (1 s)
  show ?case by simp
next
  case (4 a r)
  then show ?case by (cases t) auto
qed auto

lemma re_search_append_right: "re_search r s \<Longrightarrow> re_search r (s @ t)"
proof (induction s)
  case Nil
  then have "match_here r ([] @ t)" using match_here_append [of r "[]" t] by simp
  then show ?case by (cases t) auto
next
  case (Cons c s)
  then show ?case using match_here_append [of r "c # s" t] by auto
qed

lemma re_search_append_left: "re_search r t \<Longrightarrow> re_search r (s @ t)"
  by (induction s) auto

lemma re_search_infix: "re_search r m \<Longrightarrow> re_search r (s @ m @ t)"
  by (simp add: re_search_append_left re_search_append_right)

lemma match_here_search: "match_here r s \<Longrightarrow> re_search r s"
  by (cases s) auto

lemma search_here: "match_here r m \<Longrightarrow> re_search r (m @ t) = True"
  by (simp add: match_here_search re_search_append_right)

lemma search_later: "re_search r t \<Longrightarrow> re_search r (s @ t) = True"
  by (simp add: re_search_append_left)

subsection \<open>Substrings and concatenation\<close>

lemma starts_with_append: "starts_with s m \<Longrightarrow> starts_with (s @ t) m"
  by (induction s m rule: starts_with.induct) auto

lemma starts_with_same: "starts_with (m @ t) m"
  by (induction m) auto

lemma starts_with_contains: "starts_with s m \<Longrightarrow> contains s m"
  by (cases s) auto

lemma contains_append_right: "contains s m \<Longrightarrow> contains (s @ t) m"
proof (induction s)
  case Nil
  then have "starts_with ([] @ t) m" using starts_with_append [of "[]" m t] by simp
  then show ?case using starts_with_contains by simp
next
  case (Cons c s)
  then show ?case using starts_with_append [of "c # s" m t] by auto
qed

lemma contains_append_left: "contains t m \<Longrightarrow> contains (s @ t) m"
  by (induction s) auto

lemma contains_here: "starts_with p m \<Longrightarrow> contains (p @ t) m = True"
  by (simp add: starts_with_contains contains_append_right)

lemma contains_later: "contains t m \<Longrightarrow> contains (s @ t) m = True"
  by (simp add: contains_append_left)

subsection \<open>The validator on the six literal statements\<close>

lemma lit_geometry: "match_here geometry_pattern ''const geometry = new THREE.'' = True"
  by code_simp

lemma lit_material:
  "match_here material_pattern ''const material = new THREE.MeshStandardMaterial({ \<newline>'' = True"
  by code_simp

lemma lit_mesh:
  "match_here mesh_pattern ''const object = new THREE.Mesh(geometry, material);\<newline>'' = True"
  by code_simp

lemma lit_cast: "match_here cast_shadow_pattern ''object.castShadow = true;\<newline>'' = True"
  by code_simp

lemma lit_receive: "match_here receive_shadow_pattern ''object.receiveShadow = true;\<newline>'' = True"
  by code_simp

lemma lit_animate: "match_here animate_pattern ''object.userData.animate = () => { \<newline>'' = True"
  by code_simp

lemmas lits = lit_geometry lit_material lit_mesh lit_cast lit_receive lit_animate

lemma validate_conj:
  "validate_generated_code c =
     (re_search geometry_pattern c \<and> re_search material_pattern c \<and> re_search mesh_pattern c \<and>
      re_search cast_shadow_pattern c \<and> re_search receive_shadow_pattern c \<and>
      re_search animate_pattern c)"
  by (simp add: validate_generated_code_def required_patterns_def)

lemma template_validates:
  "validate_generated_code (generate_code_template shape geometry color color_name)"
  unfolding validate_conj generate_code_template_def Let_def
  by (simp only: lits search_here search_later simp_thms)

lemma sphere_gold_geometry:
  "contains (generate_code_template ''sphere'' ''SphereGeometry'' ''0xffd700'' ''gold'')
     ''new THREE.SphereGeometry(1.5, 32, 32)''"
  by code_simp

lemma sphere_gold_color:
  "contains (generate_code_template ''sphere'' ''SphereGeometry'' ''0xffd700'' ''gold'')
     ''color: 0xffd700''"
  by code_simp

lemma sphere_gold_cast:
  "contains (generate_code_template ''sphere'' ''SphereGeometry'' ''0xffd700'' ''gold'')
     ''castShadow = true''"
  by code_simp

lemma sphere_gold_receive:
  "contains (generate_code_template ''sphere'' ''SphereGeometry'' ''0xffd700'' ''gold'')
     ''receiveShadow = true''"
  by code_simp

lemma sphere_gold_animate:
  "contains (generate_code_template ''sphere'' ''SphereGeometry'' ''0xffd700'' ''gold'')
     ''userData.animate =''"
  by code_simp

subsection \<open>C1: generated basic fragments pass the validator\<close>

text \<open>
  Claim C1. For every shape of the shape table and every colour of the colour table, the
  fragment that \<open>generate_code_template\<close> builds for that pair is accepted by
  \<open>validate_generated_code\<close>. For sphere and gold the fragment contains the construction
  \<open>SphereGeometry(1.5, 32, 32)\<close>, the colour literal \<open>0xffd700\<close>, both shadow
  assignments and an assignment to \<open>userData.animate\<close>.
\<close>

theorem template_fragments_validate:
  "(\<forall>(shape, geometry) \<in> set (geometries ThreeJSTrainer).
      \<forall>(color_name, color_hex) \<in> set (colors ThreeJSTrainer).
        validate_generated_code (generate_code_template shape geometry color_hex color_name)) \<and>
   (''sphere'', ''SphereGeometry'') \<in> set (geometries ThreeJSTrainer) \<and>
   (''gold'', ''0xffd700'') \<in> set (colors ThreeJSTrainer) \<and>
   (let fragment = generate_code_template ''sphere'' ''SphereGeometry'' ''0xffd700'' ''gold''
    in contains fragment ''new THREE.SphereGeometry(1.5, 32, 32)'' \<and>
       contains fragment ''color: 0xffd700'' \<and>
       contains fragment ''castShadow = true'' \<and>
       contains fragment ''receiveShadow = true'' \<and>
       contains fragment ''userData.animate ='')"
proof -
  have "(''sphere'', ''SphereGeometry'') \<in> set (geometries ThreeJSTrainer)"
    by (simp add: ThreeJSTrainer_def)
  moreover have "(''gold'', ''0xffd700'') \<in> set (colors ThreeJSTrainer)"
    by (simp add: ThreeJSTrainer_def)
  moreover have "\<forall>(shape, geometry) \<in> set (geometries ThreeJSTrainer).
      \<forall>(color_name, color_hex) \<in> set (colors ThreeJSTrainer).
        validate_generated_code (generate_code_template shape geometry color_hex color_name)"
    by (simp add: template_validates)
  ultimately show ?thesis
    using sphere_gold_geometry sphere_gold_color sphere_gold_cast
      sphere_gold_receive sphere_gold_animate
    by (simp only: Let_def simp_thms)
qed

theorem template_fragments_validate_witness:
  "validate_generated_code (generate_code_template ''sphere'' ''SphereGeometry'' ''0xffd700'' ''gold'')"
proof -
  have g: "(''sphere'', ''SphereGeometry'') \<in> set (geometries ThreeJSTrainer)"
    and c: "(''gold'', ''0xffd700'') \<in> set (colors ThreeJSTrainer)"
    using template_fragments_validate by simp_all
  have "\<forall>(shape, geometry) \<in> set (geometries ThreeJSTrainer).
      \<forall>(color_name, color_hex) \<in> set (colors ThreeJSTrainer).
        validate_generated_code (generate_code_template shape geometry color_hex color_name)"
    using template_fragments_validate by (rule conjunct1)
  from bspec [OF bspec [OF this g, unfolded prod.case] c] show ?thesis
    by (simp only: prod.case)
qed

subsection \<open>C3: the validator accepts exactly the fragments that match all six patterns\<close>

lemma validate_loop_all: "validate_loop ps c = (\<forall>p \<in> set ps. re_search p c)"
  by (induction ps) auto

text \<open>
  Claim C3. \<open>validate_generated_code\<close> returns true if and only if each of the six
  required patterns matches the fragment; a fragment that one of the six patterns does not
  match is rejected.
\<close>

theorem validate_iff_all_six:
  "length required_patterns = 6 \<and>
   validate_generated_code c =
     (re_search geometry_pattern c \<and> re_search material_pattern c \<and> re_search mesh_pattern c \<and>
      re_search cast_shadow_pattern c \<and> re_search receive_shadow_pattern c \<and>
      re_search animate_pattern c) \<and>
   validate_generated_code c = (\<forall>p \<in> set required_patterns. re_search p c) \<and>
   ((\<exists>p \<in> set required_patterns. \<not> re_search p c) \<longrightarrow> \<not> validate_generated_code c)"
proof -
  have "validate_generated_code c = (\<forall>p \<in> set required_patterns. re_search p c)"
    by (simp only: validate_generated_code_def validate_loop_all)
  moreover have "length required_patterns = 6"
    by (simp add: required_patterns_def)
  ultimately show ?thesis
    using validate_conj [of c] by blast
qed

text \<open>A fragment of the template without its \<open>castShadow\<close> line is rejected.\<close>

theorem validate_iff_all_six_witness:
  "\<not> validate_generated_code
     ''const geometry = new THREE.BoxGeometry(2, 2, 2);\<newline>const material = new THREE.MeshStandardMaterial({ \<newline>    color: 0xff0000, \<newline>    metalness: 0.3, \<newline>    roughness: 0.4 \<newline>});\<newline>const object = new THREE.Mesh(geometry, material);\<newline>object.receiveShadow = true;\<newline>object.userData.animate = () => { \<newline>    object.rotation.x += 0.01;\<newline>};''"
  (is "\<not> validate_generated_code ?c")
proof -
  have "\<not> re_search cast_shadow_pattern ?c"
    by code_simp
  then show ?thesis
    using validate_iff_all_six [of ?c] by blast
qed

subsection \<open>C4: the default strategy for an unrecognised effect\<close>

text \<open>
  Claim C4. For every effect tag other than the nine recognised ones,
  \<open>generate_advanced_code\<close> uses the default strategy: a \<open>MeshStandardMaterial\<close> with
  metalness 0.3 and roughness 0.4, and the rotation about two axes. The function is total:
  it yields a fragment for every effect string.
\<close>

theorem unknown_effect_default:
  assumes "effect \<notin> {''metallic'', ''emissive'', ''floating'', ''pulsing'', ''rainbow'', ''glass'',
             ''wood'', ''crystal'', ''plasma''}"
  shows "effect_strategy color effect =
           (''new THREE.MeshStandardMaterial({ color: '' @ color @ '', metalness: 0.3, roughness: 0.4 })'',
            ''object.rotation.x += 0.01; object.rotation.y += 0.01;'') \<and>
         generate_advanced_code shape geometry color effect =
           ''const geometry = new THREE.'' @ geometry @ ''('' @ advanced_param geometry @ '');\<newline>'' @
           ''const material = new THREE.MeshStandardMaterial({ color: '' @ color @
           '', metalness: 0.3, roughness: 0.4 });\<newline>'' @
           ''const object = new THREE.Mesh(geometry, material);\<newline>'' @
           ''object.castShadow = true;\<newline>'' @
           ''object.receiveShadow = true;\<newline>'' @
           ''object.userData.animate = () => { \<newline>'' @
           ''    object.rotation.x += 0.01; object.rotation.y += 0.01;\<newline>'' @
           ''};''"
proof -
  have s: "effect_strategy color effect =
           (''new THREE.MeshStandardMaterial({ color: '' @ color @ '', metalness: 0.3, roughness: 0.4 })'',
            ''object.rotation.x += 0.01; object.rotation.y += 0.01;'')"
    using assms unfolding effect_strategy_def by simp
  show ?thesis
    unfolding generate_advanced_code_def s by (simp add: s)
qed

theorem unknown_effect_default_witness:
  "effect_strategy ''0xff0000'' ''sparkly'' =
     (''new THREE.MeshStandardMaterial({ color: 0xff0000, metalness: 0.3, roughness: 0.4 })'',
      ''object.rotation.x += 0.01; object.rotation.y += 0.01;'')"
  using unknown_effect_default [of "''sparkly''" "''0xff0000''" "''cube''" "''BoxGeometry''"]
  by simp

subsection \<open>C5: geometry parameters and their fallback\<close>

lemma starts_with_cancel: "starts_with (a @ b) (a @ c) = starts_with b c"
  by (induction a) auto

lemma template_starts:
  "starts_with (generate_code_template shape geometry color color_name)
     (''const geometry = new THREE.'' @ geometry @ ''('' @ template_param geometry @ '');'')"
  by (simp add: generate_code_template_def starts_with_cancel)

lemma advanced_starts:
  "starts_with (generate_advanced_code shape geometry color effect)
     (''const geometry = new THREE.'' @ geometry @ ''('' @ advanced_param geometry @ '');'')"
  by (simp add: generate_advanced_code_def split_beta starts_with_cancel)

text \<open>
  Claim C5. For a geometry key that is not in the parameter table the resolution yields
  the default \<open>1, 1, 1\<close>; for a key of the table it yields that key's parameter string. It
  is a total function, and the fragment carries its result.
\<close>

theorem geometry_param_resolution:
  "(geometry \<notin> set (map fst template_params) \<longrightarrow> template_param geometry = ''1, 1, 1'') \<and>
   (\<forall>param. (geometry, param) \<in> set template_params \<longrightarrow> template_param geometry = param) \<and>
   starts_with (generate_code_template shape geometry color color_name)
     (''const geometry = new THREE.'' @ geometry @ ''('' @ template_param geometry @ '');'')"
proof -
  have "distinct (map fst template_params)"
    by (simp add: template_params_def)
  then have "\<forall>param. (geometry, param) \<in> set template_params \<longrightarrow> template_param geometry = param"
    by (simp add: template_param_def dict_get_def)
  moreover have "geometry \<notin> set (map fst template_params) \<longrightarrow> template_param geometry = ''1, 1, 1''"
    by (simp add: template_param_def dict_get_def map_of_eq_None_iff [THEN iffD2])
  ultimately show ?thesis
    using template_starts by blast
qed

theorem geometry_param_resolution_witness:
  "template_param ''HeartGeometry'' = ''1, 1, 1'' \<and> template_param ''RingGeometry'' = ''0.5, 1.5, 32''"
proof -
  have "''HeartGeometry'' \<notin> set (map fst template_params)"
    by (simp add: template_params_def)
  moreover have "(''RingGeometry'', ''0.5, 1.5, 32'') \<in> set template_params"
    by (simp add: template_params_def)
  ultimately show ?thesis
    using geometry_param_resolution [of "''HeartGeometry''"]
      geometry_param_resolution [of "''RingGeometry''"] by blast
qed

subsection \<open>C10: the two parameter tables\<close>

lemma advanced_params_restrict:
  "map_of advanced_params g =
     (if g \<in> set [''SphereGeometry'', ''BoxGeometry'', ''CylinderGeometry'', ''ConeGeometry'',
                   ''TorusGeometry'', ''OctahedronGeometry'']
      then map_of template_params g else None)"
  by (simp add: advanced_params_def template_params_def)

text \<open>
  Claim C10. The table of \<open>generate_advanced_code\<close> is the table of
  \<open>generate_code_template\<close> restricted to the six kinds Sphere, Box, Cylinder, Cone, Torus
  and Octahedron. For the kinds of the shapes plane, ring, dodecahedron, icosahedron and
  tetrahedron the advanced path therefore uses the fallback \<open>1, 1, 1\<close>, while the basic
  path uses the kind's own parameter string.
\<close>

theorem param_tables_differ:
  "(\<forall>g \<in> set [''SphereGeometry'', ''BoxGeometry'', ''CylinderGeometry'', ''ConeGeometry'',
                ''TorusGeometry'', ''OctahedronGeometry''].
      map_of advanced_params g = map_of template_params g \<and> map_of template_params g \<noteq> None \<and>
      advanced_param g = template_param g) \<and>
   (\<forall>g. g \<notin> set [''SphereGeometry'', ''BoxGeometry'', ''CylinderGeometry'', ''ConeGeometry'',
                   ''TorusGeometry'', ''OctahedronGeometry''] \<longrightarrow> map_of advanced_params g = None) \<and>
   map (\<lambda>shape. dict_get (geometries ThreeJSTrainer) shape ''BoxGeometry'')
       [''plane'', ''ring'', ''dodecahedron'', ''icosahedron'', ''tetrahedron''] =
     [''PlaneGeometry'', ''RingGeometry'', ''DodecahedronGeometry'', ''IcosahedronGeometry'',
      ''TetrahedronGeometry''] \<and>
   (\<forall>(geometry, param) \<in> set [(''PlaneGeometry'', ''3, 3''), (''RingGeometry'', ''0.5, 1.5, 32''),
        (''DodecahedronGeometry'', ''1.5''), (''IcosahedronGeometry'', ''1.5''),
        (''TetrahedronGeometry'', ''1.5'')].
      advanced_param geometry = ''1, 1, 1'' \<and> template_param geometry = param \<and>
      (\<forall>shape color effect.
         starts_with (generate_advanced_code shape geometry color effect)
           (''const geometry = new THREE.'' @ geometry @ ''(1, 1, 1);'')) \<and>
      (\<forall>shape color color_name.
         starts_with (generate_code_template shape geometry color color_name)
           (''const geometry = new THREE.'' @ geometry @ ''('' @ param @ '');'')))"
proof -
  have six: "\<forall>g \<in> set [''SphereGeometry'', ''BoxGeometry'', ''CylinderGeometry'', ''ConeGeometry'',
                ''TorusGeometry'', ''OctahedronGeometry''].
      map_of advanced_params g = map_of template_params g \<and> map_of template_params g \<noteq> None \<and>
      advanced_param g = template_param g"
    by (simp add: advanced_param_def template_param_def dict_get_def advanced_params_def
        template_params_def)
  have rest: "\<forall>g. g \<notin> set [''SphereGeometry'', ''BoxGeometry'', ''CylinderGeometry'',
        ''ConeGeometry'', ''TorusGeometry'', ''OctahedronGeometry''] \<longrightarrow> map_of advanced_params g = None"
    by (simp add: advanced_params_restrict)
  have shapes: "map (\<lambda>shape. dict_get (geometries ThreeJSTrainer) shape ''BoxGeometry'')
       [''plane'', ''ring'', ''dodecahedron'', ''icosahedron'', ''tetrahedron''] =
     [''PlaneGeometry'', ''RingGeometry'', ''DodecahedronGeometry'', ''IcosahedronGeometry'',
      ''TetrahedronGeometry'']"
    by (simp add: ThreeJSTrainer_def dict_get_def)
  have a: "advanced_param ''PlaneGeometry'' = ''1, 1, 1''" "advanced_param ''RingGeometry'' = ''1, 1, 1''"
    "advanced_param ''DodecahedronGeometry'' = ''1, 1, 1''"
    "advanced_param ''IcosahedronGeometry'' = ''1, 1, 1''"
    "advanced_param ''TetrahedronGeometry'' = ''1, 1, 1''"
    by (simp_all add: advanced_param_def dict_get_def advanced_params_def)
  have t: "template_param ''PlaneGeometry'' = ''3, 3''" "template_param ''RingGeometry'' = ''0.5, 1.5, 32''"
    "template_param ''DodecahedronGeometry'' = ''1.5''"
    "template_param ''IcosahedronGeometry'' = ''1.5''"
    "template_param ''TetrahedronGeometry'' = ''1.5''"
    by (simp_all add: template_param_def dict_get_def template_params_def)
  have five: "\<forall>(geometry, param) \<in> set [(''PlaneGeometry'', ''3, 3''), (''RingGeometry'', ''0.5, 1.5, 32''),
        (''DodecahedronGeometry'', ''1.5''), (''IcosahedronGeometry'', ''1.5''),
        (''TetrahedronGeometry'', ''1.5'')].
      advanced_param geometry = ''1, 1, 1'' \<and> template_param geometry = param \<and>
      (\<forall>shape color effect.
         starts_with (generate_advanced_code shape geometry color effect)
           (''const geometry = new THREE.'' @ geometry @ ''('' @ advanced_param geometry @ '');'')) \<and>
      (\<forall>shape color color_name.
         starts_with (generate_code_template shape geometry color color_name)
           (''const geometry = new THREE.'' @ geometry @ ''('' @ template_param geometry @ '');''))"
    by (simp only: a t advanced_starts template_starts list.set ball_simps prod.case simp_thms)
  have five': "\<forall>(geometry, param) \<in> set [(''PlaneGeometry'', ''3, 3''), (''RingGeometry'', ''0.5, 1.5, 32''),
        (''DodecahedronGeometry'', ''1.5''), (''IcosahedronGeometry'', ''1.5''),
        (''TetrahedronGeometry'', ''1.5'')].
      advanced_param geometry = ''1, 1, 1'' \<and> template_param geometry = param \<and>
      (\<forall>shape color effect.
         starts_with (generate_advanced_code shape geometry color effect)
           (''const geometry = new THREE.'' @ geometry @ ''(1, 1, 1);'')) \<and>
      (\<forall>shape color color_name.
         starts_with (generate_code_template shape geometry color color_name)
           (''const geometry = new THREE.'' @ geometry @ ''('' @ param @ '');''))"
    using five by (simp add: a t)
  from six rest shapes five' show ?thesis
    by (intro conjI)
qed

theorem param_tables_differ_witness:
  "advanced_param ''PlaneGeometry'' = ''1, 1, 1'' \<and> template_param ''PlaneGeometry'' = ''3, 3'' \<and>
   advanced_param ''ConeGeometry'' = template_param ''ConeGeometry'' \<and>
   map_of advanced_params ''PlaneGeometry'' = None"
proof -
  have "(''PlaneGeometry'', ''3, 3'') \<in> set [(''PlaneGeometry'', ''3, 3''), (''RingGeometry'', ''0.5, 1.5, 32''),
        (''DodecahedronGeometry'', ''1.5''), (''IcosahedronGeometry'', ''1.5''),
        (''TetrahedronGeometry'', ''1.5'')]"
    by simp
  moreover have "''ConeGeometry'' \<in> set [''SphereGeometry'', ''BoxGeometry'', ''CylinderGeometry'',
        ''ConeGeometry'', ''TorusGeometry'', ''OctahedronGeometry'']"
    by simp
  moreover have "''PlaneGeometry'' \<notin> set [''SphereGeometry'', ''BoxGeometry'', ''CylinderGeometry'',
        ''ConeGeometry'', ''TorusGeometry'', ''OctahedronGeometry'']"
    by simp
  ultimately show ?thesis
    using param_tables_differ by fast
qed

subsection \<open>C6: the material expression of each recognised effect\<close>

lemma contains_infix: "contains (s @ m @ t) m"
  by (simp add: contains_append_left contains_append_right starts_with_contains starts_with_same)

lemma advanced_contains_material:
  "contains (generate_advanced_code shape geometry color effect)
     (''const material = '' @ fst (effect_strategy color effect) @ '';'')"
proof -
  have "generate_advanced_code shape geometry color effect =
      (''const geometry = new THREE.'' @ geometry @ ''('' @ advanced_param geometry @ '');\<newline>'') @
      (''const material = '' @ fst (effect_strategy color effect) @ '';'') @
      (''\<newline>const object = new THREE.Mesh(geometry, material);\<newline>'' @
       ''object.castShadow = true;\<newline>'' @
       ''object.receiveShadow = true;\<newline>'' @
       ''object.userData.animate = () => { \<newline>'' @
       ''    '' @ snd (effect_strategy color effect) @ ''\<newline>'' @
       ''};'')"
    by (simp add: generate_advanced_code_def split_beta)
  then show ?thesis
    by (simp only: contains_infix)
qed

lemma material_metallic:
  "contains (fst (effect_strategy color ''metallic'')) ''metalness: 0.9,''"
  by (simp add: effect_strategy_def contains_later)

lemma material_emissive:
  "contains (fst (effect_strategy color ''emissive'')) ''emissive: '' \<and>
   contains (fst (effect_strategy color ''emissive'')) ''emissiveIntensity: 0.3''"
  by (simp add: effect_strategy_def contains_later)

lemma material_floating:
  "contains (fst (effect_strategy color ''floating'')) ''metalness: 0.2, roughness: 0.8''"
  by (simp add: effect_strategy_def contains_later)

lemma material_pulsing:
  "contains (fst (effect_strategy color ''pulsing'')) ''metalness: 0.5, roughness: 0.3''"
  by (simp add: effect_strategy_def contains_later)

lemma material_glass:
  "contains (fst (effect_strategy color ''glass'')) ''transmission: 0.9'' \<and>
   contains (fst (effect_strategy color ''glass'')) ''transparent: true''"
  by (simp add: effect_strategy_def contains_later)

lemma material_wood:
  "contains (fst (effect_strategy color ''wood'')) ''metalness: 0.0, roughness: 0.9''"
  by (simp add: effect_strategy_def contains_later)

lemma material_crystal:
  "contains (fst (effect_strategy color ''crystal'')) ''transmission: 0.7'' \<and>
   contains (fst (effect_strategy color ''crystal'')) ''transparent: true'' \<and>
   contains (fst (effect_strategy color ''crystal'')) ''clearcoat: 1.0''"
  by (simp add: effect_strategy_def contains_later)

lemma material_plasma:
  "contains (fst (effect_strategy color ''plasma'')) ''emissive: '' \<and>
   contains (fst (effect_strategy color ''plasma'')) ''emissiveIntensity: 0.5''"
  by (simp add: effect_strategy_def contains_later)

text \<open>
  The material expression of each of the eight tags other than \<open>rainbow\<close> differs from
  the expression of every other tag, recognised or not, whatever the colour.
\<close>

lemma material_differs:
  assumes "effect \<in> {''metallic'', ''emissive'', ''floating'', ''pulsing'', ''glass'', ''wood'',
             ''crystal'', ''plasma''}"
    and "other \<noteq> effect"
  shows "fst (effect_strategy color effect) \<noteq> fst (effect_strategy color other)"
proof -
  have "effect = ''metallic'' \<or> effect = ''emissive'' \<or> effect = ''floating'' \<or>
      effect = ''pulsing'' \<or> effect = ''glass'' \<or> effect = ''wood'' \<or> effect = ''crystal'' \<or>
      effect = ''plasma''"
    using assms(1) by (simp only: insert_iff empty_iff simp_thms)
  then show ?thesis
  proof (elim disjE)
    assume "effect = ''metallic''"
    then show ?thesis using assms(2) by (simp add: effect_strategy_def)
  next
    assume "effect = ''emissive''"
    then show ?thesis using assms(2) by (simp add: effect_strategy_def)
  next
    assume "effect = ''floating''"
    then show ?thesis using assms(2) by (simp add: effect_strategy_def)
  next
    assume "effect = ''pulsing''"
    then show ?thesis using assms(2) by (simp add: effect_strategy_def)
  next
    assume "effect = ''glass''"
    then show ?thesis using assms(2) by (simp add: effect_strategy_def)
  next
    assume "effect = ''wood''"
    then show ?thesis using assms(2) by (simp add: effect_strategy_def)
  next
    assume "effect = ''crystal''"
    then show ?thesis using assms(2) by (simp add: effect_strategy_def)
  next
    assume "effect = ''plasma''"
    then show ?thesis using assms(2) by (simp add: effect_strategy_def)
  qed
qed

text \<open>
  The branch of \<open>rainbow\<close> (line 164) assigns the material expression of the \<open>else\<close>
  branch (line 179); the two branches differ in the animation.
\<close>

lemma material_rainbow:
  "fst (effect_strategy color ''rainbow'') =
     ''new THREE.MeshStandardMaterial({ color: '' @ color @ '', metalness: 0.3, roughness: 0.4 })''"
  by (simp add: effect_strategy_def)

lemma rainbow_is_default:
  assumes "other \<notin> {''metallic'', ''emissive'', ''floating'', ''pulsing'', ''rainbow'', ''glass'',
             ''wood'', ''crystal'', ''plasma''}"
  shows "fst (effect_strategy color ''rainbow'') = fst (effect_strategy color other) \<and>
         snd (effect_strategy color ''rainbow'') \<noteq> snd (effect_strategy color other)"
  using assms by (simp add: effect_strategy_def)

text \<open>
  Claim C6, as the code has it. \<open>generate_advanced_code\<close> writes the material expression
  of the effect into the fragment. For each of the eight tags \<open>metallic\<close>, \<open>emissive\<close>,
  \<open>floating\<close>, \<open>pulsing\<close>, \<open>glass\<close>, \<open>wood\<close>, \<open>crystal\<close> and \<open>plasma\<close> that
  expression contains the parameters of the effect (for \<open>glass\<close> a \<open>transmission\<close>
  property and \<open>transparent: true\<close>, for \<open>metallic\<close> the metalness literal 0.9, which is
  at least 0.9), and it differs from the expression of every other tag and from the default
  expression. For \<open>rainbow\<close> the expression is the default one, with metalness 0.3 and
  roughness 0.4: it equals the expression of every unrecognised tag, and only the animation
  sets \<open>rainbow\<close> apart from the default strategy.
\<close>

theorem effect_material_properties:
  "contains (generate_advanced_code shape geometry color effect)
     (''const material = '' @ fst (effect_strategy color effect) @ '';'') \<and>
   contains (fst (effect_strategy color ''metallic'')) ''metalness: 0.9,'' \<and>
   contains (fst (effect_strategy color ''emissive'')) ''emissive: '' \<and>
   contains (fst (effect_strategy color ''emissive'')) ''emissiveIntensity: 0.3'' \<and>
   contains (fst (effect_strategy color ''floating'')) ''metalness: 0.2, roughness: 0.8'' \<and>
   contains (fst (effect_strategy color ''pulsing'')) ''metalness: 0.5, roughness: 0.3'' \<and>
   contains (fst (effect_strategy color ''glass'')) ''transmission: 0.9'' \<and>
   contains (fst (effect_strategy color ''glass'')) ''transparent: true'' \<and>
   contains (fst (effect_strategy color ''wood'')) ''metalness: 0.0, roughness: 0.9'' \<and>
   contains (fst (effect_strategy color ''crystal'')) ''transmission: 0.7'' \<and>
   contains (fst (effect_strategy color ''crystal'')) ''transparent: true'' \<and>
   contains (fst (effect_strategy color ''crystal'')) ''clearcoat: 1.0'' \<and>
   contains (fst (effect_strategy color ''plasma'')) ''emissive: '' \<and>
   contains (fst (effect_strategy color ''plasma'')) ''emissiveIntensity: 0.5'' \<and>
   (effect \<in> {''metallic'', ''emissive'', ''floating'', ''pulsing'', ''glass'', ''wood'',
               ''crystal'', ''plasma''} \<and> other \<noteq> effect \<longrightarrow>
      fst (effect_strategy color effect) \<noteq> fst (effect_strategy color other)) \<and>
   fst (effect_strategy color ''rainbow'') =
     ''new THREE.MeshStandardMaterial({ color: '' @ color @ '', metalness: 0.3, roughness: 0.4 })'' \<and>
   (other \<notin> {''metallic'', ''emissive'', ''floating'', ''pulsing'', ''rainbow'', ''glass'',
               ''wood'', ''crystal'', ''plasma''} \<longrightarrow>
      fst (effect_strategy color ''rainbow'') = fst (effect_strategy color other) \<and>
      snd (effect_strategy color ''rainbow'') \<noteq> snd (effect_strategy color other))"
proof -
  have differs: "effect \<in> {''metallic'', ''emissive'', ''floating'', ''pulsing'', ''glass'', ''wood'',
               ''crystal'', ''plasma''} \<and> other \<noteq> effect \<longrightarrow>
      fst (effect_strategy color effect) \<noteq> fst (effect_strategy color other)"
  proof (intro impI, elim conjE)
    assume "effect \<in> {''metallic'', ''emissive'', ''floating'', ''pulsing'', ''glass'', ''wood'',
               ''crystal'', ''plasma''}" and "other \<noteq> effect"
    then show "fst (effect_strategy color effect) \<noteq> fst (effect_strategy color other)"
      by (rule material_differs)
  qed
  have default: "other \<notin> {''metallic'', ''emissive'', ''floating'', ''pulsing'', ''rainbow'', ''glass'',
               ''wood'', ''crystal'', ''plasma''} \<longrightarrow>
      fst (effect_strategy color ''rainbow'') = fst (effect_strategy color other) \<and>
      snd (effect_strategy color ''rainbow'') \<noteq> snd (effect_strategy color other)"
  proof
    assume "other \<notin> {''metallic'', ''emissive'', ''floating'', ''pulsing'', ''rainbow'', ''glass'',
               ''wood'', ''crystal'', ''plasma''}"
    then show "fst (effect_strategy color ''rainbow'') = fst (effect_strategy color other) \<and>
      snd (effect_strategy color ''rainbow'') \<noteq> snd (effect_strategy color other)"
      by (rule rainbow_is_default)
  qed
  show ?thesis
    using advanced_contains_material [of shape geometry color effect]
      material_metallic [of color] material_emissive [of color] material_floating [of color]
      material_pulsing [of color] material_glass [of color] material_wood [of color]
      material_crystal [of color] material_plasma [of color] material_rainbow [of color]
      differs default
    by (intro conjI) ((elim conjE)?, assumption)+
qed

theorem effect_material_properties_witness:
  "contains (fst (effect_strategy ''0x88ccff'' ''glass'')) ''transmission: 0.9'' \<and>
   contains (fst (effect_strategy ''0x88ccff'' ''glass'')) ''transparent: true'' \<and>
   contains (fst (effect_strategy ''0x88ccff'' ''metallic'')) ''metalness: 0.9,'' \<and>
   fst (effect_strategy ''0x88ccff'' ''glass'') \<noteq> fst (effect_strategy ''0x88ccff'' ''sparkly'') \<and>
   fst (effect_strategy ''0x88ccff'' ''rainbow'') = fst (effect_strategy ''0x88ccff'' ''sparkly'') \<and>
   snd (effect_strategy ''0x88ccff'' ''rainbow'') \<noteq> snd (effect_strategy ''0x88ccff'' ''sparkly'')"
proof -
  note properties = effect_material_properties [of "''sphere''" "''SphereGeometry''" "''0x88ccff''"
      "''glass''" "''sparkly''"]
  have recognised: "''glass'' \<in> {''metallic'', ''emissive'', ''floating'', ''pulsing'', ''glass'', ''wood'',
               ''crystal'', ''plasma''} \<and> ''sparkly'' \<noteq> ''glass''"
    by simp
  have unrecognised: "''sparkly'' \<notin> {''metallic'', ''emissive'', ''floating'', ''pulsing'', ''rainbow'',
               ''glass'', ''wood'', ''crystal'', ''plasma''}"
    by simp
  from properties have transmission:
    "contains (fst (effect_strategy ''0x88ccff'' ''glass'')) ''transmission: 0.9''"
    by (elim conjE)
  from properties have transparent:
    "contains (fst (effect_strategy ''0x88ccff'' ''glass'')) ''transparent: true''"
    by (elim conjE)
  from properties have metalness:
    "contains (fst (effect_strategy ''0x88ccff'' ''metallic'')) ''metalness: 0.9,''"
    by (elim conjE)
  from properties have "''glass'' \<in> {''metallic'', ''emissive'', ''floating'', ''pulsing'', ''glass'',
               ''wood'', ''crystal'', ''plasma''} \<and> ''sparkly'' \<noteq> ''glass'' \<longrightarrow>
      fst (effect_strategy ''0x88ccff'' ''glass'') \<noteq> fst (effect_strategy ''0x88ccff'' ''sparkly'')"
    by (elim conjE)
  then have differs:
    "fst (effect_strategy ''0x88ccff'' ''glass'') \<noteq> fst (effect_strategy ''0x88ccff'' ''sparkly'')"
    using recognised by (rule mp)
  from properties have "''sparkly'' \<notin> {''metallic'', ''emissive'', ''floating'', ''pulsing'',
               ''rainbow'', ''glass'', ''wood'', ''crystal'', ''plasma''} \<longrightarrow>
      fst (effect_strategy ''0x88ccff'' ''rainbow'') = fst (effect_strategy ''0x88ccff'' ''sparkly'') \<and>
      snd (effect_strategy ''0x88ccff'' ''rainbow'') \<noteq> snd (effect_strategy ''0x88ccff'' ''sparkly'')"
    by (elim conjE)
  then have default:
    "fst (effect_strategy ''0x88ccff'' ''rainbow'') = fst (effect_strategy ''0x88ccff'' ''sparkly'') \<and>
     snd (effect_strategy ''0x88ccff'' ''rainbow'') \<noteq> snd (effect_strategy ''0x88ccff'' ''sparkly'')"
    using unrecognised by (rule mp)
  from transmission transparent metalness differs default show ?thesis
    by (intro conjI) ((elim conjE)?, assumption)+
qed

text \<open>
  The material expression that \<open>rainbow\<close> selects for the colour of the curated list is,
  character for character, the one an unrecognised tag selects: nothing in it
  distinguishes \<open>rainbow\<close>.
\<close>

theorem rainbow_material_is_default:
  "fst (effect_strategy ''0xff0000'' ''rainbow'') =
     ''new THREE.MeshStandardMaterial({ color: 0xff0000, metalness: 0.3, roughness: 0.4 })'' \<and>
   fst (effect_strategy ''0xff0000'' ''sparkly'') =
     ''new THREE.MeshStandardMaterial({ color: 0xff0000, metalness: 0.3, roughness: 0.4 })'' \<and>
   fst (effect_strategy ''0xff0000'' ''rainbow'') = fst (effect_strategy ''0xff0000'' ''sparkly'')"
  by (simp add: effect_strategy_def)

subsection \<open>C9: the two early answers of the request handler\<close>

text \<open>
  Claim C9. When the request body is an object whose \<open>prompt\<close> field is absent or the
  empty string, the handler answers 400. When the prompt is a non-empty string and no
  model is configured, it answers 500. In both cases the model is not called.
\<close>

theorem handler_early_answers:
  "((map_of items ''prompt'' = None \<or> map_of items ''prompt'' = Some (JString [])) \<longrightarrow>
      handle_generate_request self (Inr (JObject items)) = [Send_error 400 ''Prompt is required''] \<and>
      (\<forall>p. Generate_content p \<notin> set (handle_generate_request self (Inr (JObject items))))) \<and>
   (\<forall>text'. map_of items ''prompt'' = Some (JString text') \<and> text' \<noteq> [] \<and> model self = None \<longrightarrow>
      handle_generate_request self (Inr (JObject items)) =
        [Send_error 500 ''Gemini API not configured''] \<and>
      (\<forall>p. Generate_content p \<notin> set (handle_generate_request self (Inr (JObject items)))))"
  by (auto simp add: handle_generate_request_def dict_get_def)

theorem handler_early_answers_witness:
  "handle_generate_request \<lparr> model = Some (\<lambda>p. Inr (Response (Inr ''const x = 1;''))) \<rparr> (Inr (JObject [])) =
     [Send_error 400 ''Prompt is required''] \<and>
   handle_generate_request \<lparr> model = Some (\<lambda>p. Inr (Response (Inr ''const x = 1;''))) \<rparr>
       (Inr (JObject [(''prompt'', JString [])])) =
     [Send_error 400 ''Prompt is required''] \<and>
   handle_generate_request \<lparr> model = None \<rparr> (Inr (JObject [(''prompt'', JString ''a red cube'')])) =
     [Send_error 500 ''Gemini API not configured'']"
  using handler_early_answers [of "[]" "\<lparr> model = Some (\<lambda>p. Inr (Response (Inr ''const x = 1;''))) \<rparr>"]
    handler_early_answers [of "[(''prompt'', JString [])]" "\<lparr> model = Some (\<lambda>p. Inr (Response (Inr ''const x = 1;''))) \<rparr>"]
    handler_early_answers [of "[(''prompt'', JString ''a red cube'')]" "\<lparr> model = None \<rparr>"]
  by simp

subsection \<open>C2: the generated corpus\<close>

lemma colors_loop_append:
  "colors_loop shape geometry color_items examples =
     examples @ map (\<lambda>(color_name, color_hex).
       \<lparr> prompt = ''Create a '' @ color_name @ '' '' @ shape,
         code = generate_code_template shape geometry color_hex color_name,
         category = ''basic_shapes'' \<rparr>) color_items"
  by (induction color_items arbitrary: examples) auto

lemma shapes_loop_append:
  "shapes_loop geometry_items color_items examples =
     examples @ concat (map (\<lambda>(shape, geometry). map (\<lambda>(color_name, color_hex).
       \<lparr> prompt = ''Create a '' @ color_name @ '' '' @ shape,
         code = generate_code_template shape geometry color_hex color_name,
         category = ''basic_shapes'' \<rparr>) color_items) geometry_items)"
  by (induction geometry_items arbitrary: examples) (auto simp add: colors_loop_append)

lemma complex_loop_append:
  "complex_loop geometry_items objects examples =
     examples @ map (\<lambda>(prompt', shape, color, effect).
       \<lparr> prompt = prompt',
         code = generate_advanced_code shape (dict_get geometry_items shape ''BoxGeometry'') color effect,
         category = ''advanced_objects'' \<rparr>) objects"
  by (induction objects arbitrary: examples) auto

lemma generate_training_examples_eq:
  "generate_training_examples self =
     concat (map (\<lambda>(shape, geometry). map (\<lambda>(color_name, color_hex).
       \<lparr> prompt = ''Create a '' @ color_name @ '' '' @ shape,
         code = generate_code_template shape geometry color_hex color_name,
         category = ''basic_shapes'' \<rparr>) (colors self)) (geometries self)) @
     map (\<lambda>(prompt', shape, color, effect).
       \<lparr> prompt = prompt',
         code = generate_advanced_code shape (dict_get (geometries self) shape ''BoxGeometry'') color effect,
         category = ''advanced_objects'' \<rparr>) complex_objects"
  by (simp add: generate_training_examples_def shapes_loop_append complex_loop_append)

lemma map_category_const:
  "\<forall>x \<in> set xs. category x = k \<Longrightarrow> map category xs = replicate (length xs) k"
  by (induction xs) auto

lemma basic_length:
  "length (concat (map (\<lambda>(shape, geometry). map (\<lambda>(color_name, color_hex).
       \<lparr> prompt = ''Create a '' @ color_name @ '' '' @ shape,
         code = generate_code_template shape geometry color_hex color_name,
         category = ''basic_shapes'' \<rparr>) color_items) geometry_items)) =
   length geometry_items * length color_items"
  by (induction geometry_items) (auto simp add: split_beta)

lemma basic_categories:
  "map category (concat (map (\<lambda>(shape, geometry). map (\<lambda>(color_name, color_hex).
       \<lparr> prompt = ''Create a '' @ color_name @ '' '' @ shape,
         code = generate_code_template shape geometry color_hex color_name,
         category = ''basic_shapes'' \<rparr>) color_items) geometry_items)) =
   replicate (length geometry_items * length color_items) ''basic_shapes''"
  (is "map category ?xs = _")
proof -
  have "\<forall>x \<in> set ?xs. category x = ''basic_shapes''"
    by auto
  then have "map category ?xs = replicate (length ?xs) ''basic_shapes''"
    by (rule map_category_const)
  then show ?thesis
    by (simp only: basic_length)
qed

lemma advanced_categories:
  "map category (map (\<lambda>(prompt', shape, color, effect).
       \<lparr> prompt = prompt',
         code = generate_advanced_code shape (dict_get geometry_items shape ''BoxGeometry'') color effect,
         category = ''advanced_objects'' \<rparr>) objects) =
   replicate (length objects) ''advanced_objects''"
  by (induction objects) auto

lemma table_sizes:
  "length (geometries ThreeJSTrainer) = 11" "length (colors ThreeJSTrainer) = 10"
  "length complex_objects = 10"
  by (simp_all add: ThreeJSTrainer_def complex_objects_def)

lemma categories_of_corpus:
  "map category (generate_training_examples ThreeJSTrainer) =
     replicate 110 ''basic_shapes'' @ replicate 10 ''advanced_objects''"
proof -
  have "map category (generate_training_examples ThreeJSTrainer) =
      replicate (length (geometries ThreeJSTrainer) * length (colors ThreeJSTrainer)) ''basic_shapes'' @
      replicate (length complex_objects) ''advanced_objects''"
    unfolding generate_training_examples_eq map_append basic_categories advanced_categories ..
  then show ?thesis
    by (simp only: table_sizes) simp
qed

lemma length_of_corpus: "length (generate_training_examples ThreeJSTrainer) = 120"
proof -
  have "length (map category (generate_training_examples ThreeJSTrainer)) = 120"
    unfolding categories_of_corpus by simp
  then show ?thesis by simp
qed

text \<open>
  Claim C2. \<open>generate_training_examples\<close> returns the 11 x 10 = 110 examples tagged
  \<open>basic_shapes\<close>, shape by shape and within a shape colour by colour in the order of the
  tables, followed by the 10 examples tagged \<open>advanced_objects\<close> in the order of the
  curated list: 120 in all. The result depends on the two tables only, so two calls with
  the same tables return the same sequence.
\<close>

theorem corpus_layout:
  "generate_training_examples ThreeJSTrainer =
     concat (map (\<lambda>(shape, geometry). map (\<lambda>(color_name, color_hex).
       \<lparr> prompt = ''Create a '' @ color_name @ '' '' @ shape,
         code = generate_code_template shape geometry color_hex color_name,
         category = ''basic_shapes'' \<rparr>) (colors ThreeJSTrainer)) (geometries ThreeJSTrainer)) @
     map (\<lambda>(prompt', shape, color, effect).
       \<lparr> prompt = prompt',
         code = generate_advanced_code shape
                  (dict_get (geometries ThreeJSTrainer) shape ''BoxGeometry'') color effect,
         category = ''advanced_objects'' \<rparr>) complex_objects \<and>
   length (geometries ThreeJSTrainer) = 11 \<and> length (colors ThreeJSTrainer) = 10 \<and>
   length complex_objects = 10 \<and>
   length (generate_training_examples ThreeJSTrainer) = 120 \<and>
   map category (generate_training_examples ThreeJSTrainer) =
     replicate 110 ''basic_shapes'' @ replicate 10 ''advanced_objects'' \<and>
   (\<forall>self self'. geometries self = geometries self' \<and> colors self = colors self' \<longrightarrow>
      generate_training_examples self = generate_training_examples self')"
proof -
  have "\<forall>self self'. geometries self = geometries self' \<and> colors self = colors self' \<longrightarrow>
      generate_training_examples self = generate_training_examples self'"
    by (simp add: generate_training_examples_def)
  then show ?thesis
    using generate_training_examples_eq [of ThreeJSTrainer] table_sizes length_of_corpus
      categories_of_corpus
    by (intro conjI)
qed

theorem corpus_layout_witness:
  "generate_training_examples (ThreeJSTrainer \<lparr> training_data := [\<lparr> prompt = ''p'', code = ''c'', category = ''k'' \<rparr>],
       materials := [] \<rparr>) =
     generate_training_examples ThreeJSTrainer \<and>
   length (generate_training_examples ThreeJSTrainer) = 120"
proof -
  have "geometries (ThreeJSTrainer \<lparr> training_data := [\<lparr> prompt = ''p'', code = ''c'', category = ''k'' \<rparr>],
       materials := [] \<rparr>) = geometries ThreeJSTrainer \<and>
     colors (ThreeJSTrainer \<lparr> training_data := [\<lparr> prompt = ''p'', code = ''c'', category = ''k'' \<rparr>],
       materials := [] \<rparr>) = colors ThreeJSTrainer"
    by simp
  then show ?thesis
    using corpus_layout by blast
qed

subsection \<open>C8: one fine-tuning record per example\<close>

lemma fine_tune_loop_length:
  "length (fine_tune_loop examples fine_tune_data) = length fine_tune_data + length examples"
  by (induction examples arbitrary: fine_tune_data) auto

lemma fine_tune_loop_assistant:
  "map assistant_content (fine_tune_loop examples fine_tune_data) =
     map assistant_content fine_tune_data @ map (\<lambda>example. [code example]) examples"
  by (induction examples arbitrary: fine_tune_data) (auto simp add: assistant_content_def)

lemma fine_tune_loop_roles:
  "map (\<lambda>r. map role (messages r)) (fine_tune_loop examples fine_tune_data) =
     map (\<lambda>r. map role (messages r)) fine_tune_data @
     replicate (length examples) [''system'', ''user'', ''assistant'']"
  by (induction examples arbitrary: fine_tune_data) (auto simp add: replicate_append_same)

text \<open>
  Claim C8. The fine-tuning records built in \<open>main\<close> are one per generated example, in
  the order of the examples, and the content of the assistant message of record \<open>i\<close> is
  the \<open>code\<close> field of example \<open>i\<close>.
\<close>

theorem fine_tune_round_trip:
  "length main_fine_tune_data = length main_training_data \<and>
   length main_training_data = 120 \<and>
   map assistant_content main_fine_tune_data = map (\<lambda>example. [code example]) main_training_data \<and>
   (\<forall>i < length main_training_data.
      assistant_content (main_fine_tune_data ! i) = [code (main_training_data ! i)] \<and>
      map role (messages (main_fine_tune_data ! i)) = [''system'', ''user'', ''assistant'']) \<and>
   (\<forall>examples. length (fine_tune_loop examples []) = length examples \<and>
      map assistant_content (fine_tune_loop examples []) = map (\<lambda>example. [code example]) examples)"
proof -
  have len: "length main_fine_tune_data = length main_training_data"
    by (simp add: main_fine_tune_data_def fine_tune_loop_length)
  have n: "length main_training_data = 120"
    by (simp add: main_training_data_def save_training_data_def length_of_corpus)
  have m: "map assistant_content main_fine_tune_data = map (\<lambda>example. [code example]) main_training_data"
    by (simp add: main_fine_tune_data_def fine_tune_loop_assistant)
  have r: "map (\<lambda>r. map role (messages r)) main_fine_tune_data =
      replicate (length main_training_data) [''system'', ''user'', ''assistant'']"
    by (simp add: main_fine_tune_data_def fine_tune_loop_roles)
  have "assistant_content (main_fine_tune_data ! i) = [code (main_training_data ! i)] \<and>
      map role (messages (main_fine_tune_data ! i)) = [''system'', ''user'', ''assistant'']"
    if "i < length main_training_data" for i
  proof -
    have "map assistant_content main_fine_tune_data ! i = assistant_content (main_fine_tune_data ! i)"
      using that len by simp
    moreover have "map (\<lambda>example. [code example]) main_training_data ! i = [code (main_training_data ! i)]"
      using that by simp
    moreover have "map (\<lambda>r. map role (messages r)) main_fine_tune_data ! i =
        map role (messages (main_fine_tune_data ! i))"
      using that len by simp
    moreover have "replicate (length main_training_data) [''system'', ''user'', ''assistant''] ! i =
        [''system'', ''user'', ''assistant'']"
      using that by simp
    ultimately show ?thesis
      using m r by metis
  qed
  then show ?thesis
    using len n m by (simp add: fine_tune_loop_length fine_tune_loop_assistant)
qed

theorem fine_tune_round_trip_witness:
  "assistant_content (main_fine_tune_data ! 0) = [code (main_training_data ! 0)] \<and>
   assistant_content (main_fine_tune_data ! 119) = [code (main_training_data ! 119)]"
proof -
  have "(0::nat) < 120" "(119::nat) < 120"
    by simp_all
  then show ?thesis
    using fine_tune_round_trip by metis
qed

subsection \<open>C7: what every assembled fragment contains\<close>

lemma starts_with_sep:
  "x \<notin> set pat \<Longrightarrow> starts_with (w @ x # v) pat = starts_with w pat"
proof (induction w arbitrary: pat)
  case Nil
  then show ?case by (cases pat) auto
next
  case (Cons c w)
  then show ?case by (cases pat) auto
qed

lemma occurrences_sep:
  "x \<notin> set pat \<Longrightarrow> occurrences (u @ x # v) pat = occurrences u pat + occurrences v pat"
proof (induction u)
  case Nil
  then show ?case using starts_with_sep [of x pat "[]" v] by simp
next
  case (Cons c u)
  then show ?case using starts_with_sep [of x pat "c # u" v] by simp
qed

lemma occurrences_zero: "occurrences s pat = 0 \<longleftrightarrow> \<not> contains s pat"
  by (induction s) auto

lemma ends_with_append: "ends_with (p @ s) s"
  by (simp add: starts_with_same)

lemma template_param_no_hook: "occurrences (template_param geometry) ''object.userData.animate'' = 0"
  by (simp add: template_param_def dict_get_def template_params_def)

lemma template_animation_no_hook:
  "occurrences (template_animation shape) ''object.userData.animate'' = 0"
  by (simp add: template_animation_def dict_get_def animations_def)

lemma template_hook_once:
  assumes "occurrences geometry ''object.userData.animate'' = 0"
    and "occurrences color ''object.userData.animate'' = 0"
  shows "occurrences (generate_code_template shape geometry color color_name)
           ''object.userData.animate'' = 1"
  using assms
  by (simp add: generate_code_template_def occurrences_sep template_param_no_hook
      template_animation_no_hook)

lemma advanced_param_no_hook: "occurrences (advanced_param geometry) ''object.userData.animate'' = 0"
  by (simp add: advanced_param_def dict_get_def advanced_params_def)

lemma effect_animation_no_hook:
  "occurrences (snd (effect_strategy color effect)) ''object.userData.animate'' = 0"
  by (simp add: effect_strategy_def)

lemma effect_material_no_hook:
  "occurrences color ''object.userData.animate'' = 0 \<Longrightarrow>
   occurrences (fst (effect_strategy color effect)) ''object.userData.animate'' = 0"
  by (simp add: effect_strategy_def occurrences_sep)

lemma advanced_hook_once:
  assumes "occurrences geometry ''object.userData.animate'' = 0"
    and "occurrences color ''object.userData.animate'' = 0"
  shows "occurrences (generate_advanced_code shape geometry color effect)
           ''object.userData.animate'' = 1"
  using assms effect_material_no_hook [of color effect]
  by (simp add: generate_advanced_code_def split_beta occurrences_sep advanced_param_no_hook
      effect_animation_no_hook)

lemma piece_mesh:
  "starts_with ''const object = new THREE.Mesh(geometry, material);\<newline>''
     ''const object = new THREE.Mesh(geometry, material);'' = True"
  by simp

lemma piece_cast:
  "starts_with ''object.castShadow = true;\<newline>'' ''object.castShadow = true;'' = True"
  by simp

lemma piece_receive:
  "starts_with ''object.receiveShadow = true;\<newline>'' ''object.receiveShadow = true;'' = True"
  by simp

lemmas pieces = piece_mesh piece_cast piece_receive

lemma template_statements:
  "contains (generate_code_template shape geometry color color_name)
     ''const object = new THREE.Mesh(geometry, material);'' \<and>
   contains (generate_code_template shape geometry color color_name) ''object.castShadow = true;'' \<and>
   contains (generate_code_template shape geometry color color_name) ''object.receiveShadow = true;''"
  unfolding generate_code_template_def Let_def
  by (simp only: pieces contains_here contains_later simp_thms)

lemma advanced_statements:
  "contains (generate_advanced_code shape geometry color effect)
     ''const object = new THREE.Mesh(geometry, material);'' \<and>
   contains (generate_advanced_code shape geometry color effect) ''object.castShadow = true;'' \<and>
   contains (generate_advanced_code shape geometry color effect) ''object.receiveShadow = true;''"
  unfolding generate_advanced_code_def Let_def split_beta
  by (simp only: pieces contains_here contains_later simp_thms)

lemma template_ends:
  "ends_with (generate_code_template shape geometry color color_name)
     (''object.userData.animate = () => { \<newline>    '' @ template_animation shape @ ''\<newline>};'')"
proof -
  have "generate_code_template shape geometry color color_name =
      (''const geometry = new THREE.'' @ geometry @ ''('' @ template_param geometry @ '');\<newline>'' @
       ''const material = new THREE.MeshStandardMaterial({ \<newline>'' @
       ''    color: '' @ color @ '', \<newline>'' @
       ''    metalness: 0.3, \<newline>'' @
       ''    roughness: 0.4 \<newline>'' @
       ''});\<newline>'' @
       ''const object = new THREE.Mesh(geometry, material);\<newline>'' @
       ''object.castShadow = true;\<newline>'' @
       ''object.receiveShadow = true;\<newline>'') @
      (''object.userData.animate = () => { \<newline>    '' @ template_animation shape @ ''\<newline>};'')"
    by (simp add: generate_code_template_def)
  then show ?thesis
    by (simp only: ends_with_append)
qed

lemma advanced_ends:
  "ends_with (generate_advanced_code shape geometry color effect)
     (''object.userData.animate = () => { \<newline>    '' @ snd (effect_strategy color effect) @
      ''\<newline>};'')"
proof -
  have "generate_advanced_code shape geometry color effect =
      (''const geometry = new THREE.'' @ geometry @ ''('' @ advanced_param geometry @ '');\<newline>'' @
       ''const material = '' @ fst (effect_strategy color effect) @ '';\<newline>'' @
       ''const object = new THREE.Mesh(geometry, material);\<newline>'' @
       ''object.castShadow = true;\<newline>'' @
       ''object.receiveShadow = true;\<newline>'') @
      (''object.userData.animate = () => { \<newline>    '' @ snd (effect_strategy color effect) @
       ''\<newline>};'')"
    by (simp add: generate_advanced_code_def split_beta)
  then show ?thesis
    by (simp only: ends_with_append)
qed

text \<open>
  No geometry kind and no colour literal of the tables, and no colour of the curated list,
  contains the text \<open>object.userData.animate\<close>.
\<close>

lemma table_geometry_no_hook:
  "(shape, geometry) \<in> set (geometries ThreeJSTrainer) \<Longrightarrow>
   occurrences geometry ''object.userData.animate'' = 0"
  by (auto simp add: ThreeJSTrainer_def)

lemma table_color_no_hook:
  "(color_name, color) \<in> set (colors ThreeJSTrainer) \<Longrightarrow>
   occurrences color ''object.userData.animate'' = 0"
  by (auto simp add: ThreeJSTrainer_def)

lemma looked_up_geometry_no_hook:
  "occurrences (dict_get (geometries ThreeJSTrainer) shape ''BoxGeometry'')
     ''object.userData.animate'' = 0"
  by (simp add: dict_get_def ThreeJSTrainer_def)

lemma curated_color_no_hook:
  "(prompt', shape, color, effect) \<in> set complex_objects \<Longrightarrow>
   occurrences color ''object.userData.animate'' = 0"
  by (auto simp add: complex_objects_def)

lemma table_hook_once:
  assumes "(shape, geometry) \<in> set (geometries ThreeJSTrainer)"
    and "(color_name, color) \<in> set (colors ThreeJSTrainer)"
  shows "occurrences (generate_code_template shape geometry color color_name)
           ''object.userData.animate'' = 1"
    and "occurrences (generate_advanced_code shape geometry color effect)
           ''object.userData.animate'' = 1"
  using assms
  by (simp_all only: template_hook_once advanced_hook_once table_geometry_no_hook
      table_color_no_hook)

lemma curated_hook_once:
  assumes "(prompt', shape, color, effect) \<in> set complex_objects"
  shows "occurrences
           (generate_advanced_code shape (dict_get (geometries ThreeJSTrainer) shape ''BoxGeometry'')
              color effect)
           ''object.userData.animate'' = 1"
  using curated_color_no_hook [OF assms] looked_up_geometry_no_hook [of shape]
  by (rule advanced_hook_once [rotated])

lemma corpus_hook_once:
  assumes "e \<in> set (generate_training_examples ThreeJSTrainer)"
  shows "occurrences (code e) ''object.userData.animate'' = 1"
proof -
  consider
    (basic) shape geometry color_name color where
      "(shape, geometry) \<in> set (geometries ThreeJSTrainer)"
      "(color_name, color) \<in> set (colors ThreeJSTrainer)"
      "code e = generate_code_template shape geometry color color_name"
  | (advanced) prompt' shape color effect where
      "(prompt', shape, color, effect) \<in> set complex_objects"
      "code e = generate_advanced_code shape
                  (dict_get (geometries ThreeJSTrainer) shape ''BoxGeometry'') color effect"
    using assms unfolding generate_training_examples_eq by auto
  then show ?thesis
  proof cases
    case basic
    then show ?thesis by (simp only: table_hook_once)
  next
    case advanced
    then show ?thesis by (simp only: curated_hook_once)
  qed
qed

text \<open>
  The arguments are written into the fragment as they are. A colour argument that is not
  a colour literal but holds the text of an assignment to the hook gives a fragment in
  which \<open>object.userData.animate\<close> occurs twice; no entry of the tables or of the curated
  list is of this kind.
\<close>

lemma hook_text_in_color:
  "occurrences
     (generate_code_template ''sphere'' ''SphereGeometry''
        ''0xff0000 }); object.userData.animate = null; ({ x: 0'' ''red'')
     ''object.userData.animate'' = 2 \<and>
   occurrences
     (generate_advanced_code ''sphere'' ''SphereGeometry''
        ''0xff0000 }); object.userData.animate = null; ({ x: 0'' ''wood'')
     ''object.userData.animate'' = 2"
  by code_simp

text \<open>
  Claim C7. For all arguments, a fragment of either generator contains the statement that
  binds the mesh to \<open>object\<close> and both shadow assignments, and it ends with the
  assignment to \<open>object.userData.animate\<close> whose body is the animation expression chosen
  for the shape or the effect: none of these depends on a condition. The fragment contains
  exactly one assignment to \<open>object.userData.animate\<close>, the text occurring once in it,
  for all arguments of which neither the geometry nor the colour contains that text. This
  covers every input that the tables supply: every pair of a shape and a colour of the
  tables, with either generator and any effect, every entry of the curated list, and so
  each of the 120 fragments of the generated corpus.
\<close>

theorem assembler_invariants:
  "contains (generate_code_template shape geometry color color_name)
     ''const object = new THREE.Mesh(geometry, material);'' \<and>
   contains (generate_code_template shape geometry color color_name) ''object.castShadow = true;'' \<and>
   contains (generate_code_template shape geometry color color_name) ''object.receiveShadow = true;'' \<and>
   ends_with (generate_code_template shape geometry color color_name)
     (''object.userData.animate = () => { \<newline>    '' @ template_animation shape @ ''\<newline>};'') \<and>
   contains (generate_advanced_code shape geometry color effect)
     ''const object = new THREE.Mesh(geometry, material);'' \<and>
   contains (generate_advanced_code shape geometry color effect) ''object.castShadow = true;'' \<and>
   contains (generate_advanced_code shape geometry color effect) ''object.receiveShadow = true;'' \<and>
   ends_with (generate_advanced_code shape geometry color effect)
     (''object.userData.animate = () => { \<newline>    '' @ snd (effect_strategy color effect) @
      ''\<newline>};'') \<and>
   (\<not> contains geometry ''object.userData.animate'' \<and> \<not> contains color ''object.userData.animate'' \<longrightarrow>
      occurrences (generate_code_template shape geometry color color_name)
        ''object.userData.animate'' = 1 \<and>
      occurrences (generate_advanced_code shape geometry color effect)
        ''object.userData.animate'' = 1) \<and>
   (\<forall>(shape', geometry') \<in> set (geometries ThreeJSTrainer).
      \<forall>(color_name', color') \<in> set (colors ThreeJSTrainer).
        occurrences (generate_code_template shape' geometry' color' color_name')
          ''object.userData.animate'' = 1 \<and>
        occurrences (generate_advanced_code shape' geometry' color' effect)
          ''object.userData.animate'' = 1) \<and>
   (\<forall>(prompt', shape', color', effect') \<in> set complex_objects.
      occurrences
        (generate_advanced_code shape'
           (dict_get (geometries ThreeJSTrainer) shape' ''BoxGeometry'') color' effect')
        ''object.userData.animate'' = 1) \<and>
   (\<forall>e \<in> set (generate_training_examples ThreeJSTrainer).
      occurrences (code e) ''object.userData.animate'' = 1)"
proof -
  have once: "\<not> contains geometry ''object.userData.animate'' \<and>
      \<not> contains color ''object.userData.animate'' \<longrightarrow>
      occurrences (generate_code_template shape geometry color color_name)
        ''object.userData.animate'' = 1 \<and>
      occurrences (generate_advanced_code shape geometry color effect)
        ''object.userData.animate'' = 1"
    using template_hook_once [of geometry color shape color_name]
      advanced_hook_once [of geometry color shape effect]
    by (simp only: occurrences_zero) blast
  have tables: "\<forall>(shape', geometry') \<in> set (geometries ThreeJSTrainer).
      \<forall>(color_name', color') \<in> set (colors ThreeJSTrainer).
        occurrences (generate_code_template shape' geometry' color' color_name')
          ''object.userData.animate'' = 1 \<and>
        occurrences (generate_advanced_code shape' geometry' color' effect)
          ''object.userData.animate'' = 1"
    by (clarify, intro conjI; rule table_hook_once; assumption)
  have curated: "\<forall>(prompt', shape', color', effect') \<in> set complex_objects.
      occurrences
        (generate_advanced_code shape'
           (dict_get (geometries ThreeJSTrainer) shape' ''BoxGeometry'') color' effect')
        ''object.userData.animate'' = 1"
    by (clarify, rule curated_hook_once, assumption)
  have corpus: "\<forall>e \<in> set (generate_training_examples ThreeJSTrainer).
      occurrences (code e) ''object.userData.animate'' = 1"
    using corpus_hook_once by (rule ballI)
  show ?thesis
    using template_statements [of shape geometry color color_name]
      advanced_statements [of shape geometry color effect]
      template_ends [of shape geometry color color_name]
      advanced_ends [of shape geometry color effect]
      once tables curated corpus
    by (intro conjI) ((elim conjE)?, assumption)+
qed

theorem assembler_invariants_witness:
  "occurrences (generate_code_template ''sphere'' ''SphereGeometry'' ''0xffd700'' ''gold'')
     ''object.userData.animate'' = 1 \<and>
   occurrences (generate_advanced_code ''sphere'' ''SphereGeometry'' ''0xffd700'' ''metallic'')
     ''object.userData.animate'' = 1 \<and>
   occurrences (code (generate_training_examples ThreeJSTrainer ! 0))
     ''object.userData.animate'' = 1 \<and>
   occurrences (code (generate_training_examples ThreeJSTrainer ! 119))
     ''object.userData.animate'' = 1"
proof -
  note invariants = assembler_invariants [of "''sphere''" "''SphereGeometry''" "''0xffd700''"
      "''gold''" "''metallic''"]
  have no_hook: "\<not> contains ''SphereGeometry'' ''object.userData.animate'' \<and>
      \<not> contains ''0xffd700'' ''object.userData.animate''"
    by simp
  from invariants have "\<not> contains ''SphereGeometry'' ''object.userData.animate'' \<and>
      \<not> contains ''0xffd700'' ''object.userData.animate'' \<longrightarrow>
      occurrences (generate_code_template ''sphere'' ''SphereGeometry'' ''0xffd700'' ''gold'')
        ''object.userData.animate'' = 1 \<and>
      occurrences (generate_advanced_code ''sphere'' ''SphereGeometry'' ''0xffd700'' ''metallic'')
        ''object.userData.animate'' = 1"
    by (elim conjE)
  then have once: "occurrences (generate_code_template ''sphere'' ''SphereGeometry'' ''0xffd700'' ''gold'')
        ''object.userData.animate'' = 1 \<and>
      occurrences (generate_advanced_code ''sphere'' ''SphereGeometry'' ''0xffd700'' ''metallic'')
        ''object.userData.animate'' = 1"
    using no_hook by (rule mp)
  from invariants have corpus: "\<forall>e \<in> set (generate_training_examples ThreeJSTrainer).
      occurrences (code e) ''object.userData.animate'' = 1"
    by (elim conjE)
  have "generate_training_examples ThreeJSTrainer ! 0 \<in>
      set (generate_training_examples ThreeJSTrainer)"
    by (simp add: length_of_corpus)
  with corpus have first: "occurrences (code (generate_training_examples ThreeJSTrainer ! 0))
     ''object.userData.animate'' = 1"
    by (rule bspec)
  have "generate_training_examples ThreeJSTrainer ! 119 \<in>
      set (generate_training_examples ThreeJSTrainer)"
    by (simp add: length_of_corpus)
  with corpus have last: "occurrences (code (generate_training_examples ThreeJSTrainer ! 119))
     ''object.userData.animate'' = 1"
    by (rule bspec)
  from once first last show ?thesis
    by (intro conjI) ((elim conjE)?, assumption)+
qed

end
